theory Spec2Isabelle
  imports Complex_Main
begin

section \<open>Numbers\<close>

text \<open>
  The editor computes with JavaScript numbers and the shaders with GLSL floats. They are
  modelled as exact reals extended by the three special values of IEEE arithmetic, so
  that a division by zero yields an infinity or NaN as it does in the program and never
  an exception. These operations do not round or overflow; rounding is added where a
  property turns on it, in the section on rounding below. The sign of a zero is not
  tracked: every zero is read as \<open>+0\<close>.
\<close>

datatype jsnum = Fin real | PInf | NInf | NaN

fun js_neg :: "jsnum \<Rightarrow> jsnum" where
  "js_neg (Fin a) = Fin (- a)"
| "js_neg PInf = NInf"
| "js_neg NInf = PInf"
| "js_neg NaN = NaN"

fun js_add :: "jsnum \<Rightarrow> jsnum \<Rightarrow> jsnum" where
  "js_add (Fin a) (Fin b) = Fin (a + b)"
| "js_add NaN _ = NaN"
| "js_add _ NaN = NaN"
| "js_add PInf NInf = NaN"
| "js_add NInf PInf = NaN"
| "js_add PInf _ = PInf"
| "js_add _ PInf = PInf"
| "js_add NInf _ = NInf"
| "js_add _ NInf = NInf"

definition js_sub :: "jsnum \<Rightarrow> jsnum \<Rightarrow> jsnum" where
  "js_sub a b = js_add a (js_neg b)"

definition signed_inf :: "bool \<Rightarrow> jsnum" where
  "signed_inf positive = (if positive then PInf else NInf)"

fun js_mul :: "jsnum \<Rightarrow> jsnum \<Rightarrow> jsnum" where
  "js_mul (Fin a) (Fin b) = Fin (a * b)"
| "js_mul NaN _ = NaN"
| "js_mul _ NaN = NaN"
| "js_mul (Fin a) PInf = (if a = 0 then NaN else signed_inf (0 < a))"
| "js_mul (Fin a) NInf = (if a = 0 then NaN else signed_inf (a < 0))"
| "js_mul PInf (Fin b) = (if b = 0 then NaN else signed_inf (0 < b))"
| "js_mul NInf (Fin b) = (if b = 0 then NaN else signed_inf (b < 0))"
| "js_mul PInf PInf = PInf"
| "js_mul PInf NInf = NInf"
| "js_mul NInf PInf = NInf"
| "js_mul NInf NInf = PInf"

fun js_div :: "jsnum \<Rightarrow> jsnum \<Rightarrow> jsnum" where
  "js_div (Fin a) (Fin b) =
     (if b = 0 then (if a = 0 then NaN else signed_inf (0 < a)) else Fin (a / b))"
| "js_div NaN _ = NaN"
| "js_div _ NaN = NaN"
| "js_div (Fin a) PInf = Fin 0"
| "js_div (Fin a) NInf = Fin 0"
| "js_div PInf (Fin b) = signed_inf (0 \<le> b)"
| "js_div NInf (Fin b) = signed_inf (b < 0)"
| "js_div PInf PInf = NaN"
| "js_div PInf NInf = NaN"
| "js_div NInf PInf = NaN"
| "js_div NInf NInf = NaN"

text \<open>The comparisons \<open><\<close>, \<open><=\<close>, \<open>>\<close> and \<open>===\<close>: each is false when an operand is NaN.\<close>

fun js_lt :: "jsnum \<Rightarrow> jsnum \<Rightarrow> bool" where
  "js_lt (Fin a) (Fin b) = (a < b)"
| "js_lt NaN _ = False"
| "js_lt _ NaN = False"
| "js_lt _ NInf = False"
| "js_lt PInf _ = False"
| "js_lt NInf _ = True"
| "js_lt _ PInf = True"

definition js_gt :: "jsnum \<Rightarrow> jsnum \<Rightarrow> bool" where
  "js_gt a b = js_lt b a"

definition js_eq :: "jsnum \<Rightarrow> jsnum \<Rightarrow> bool" where
  "js_eq a b = (a \<noteq> NaN \<and> a = b)"

definition js_le :: "jsnum \<Rightarrow> jsnum \<Rightarrow> bool" where
  "js_le a b = (js_lt a b \<or> js_eq a b)"

text \<open>\<open>Math.abs\<close>, \<open>Math.min\<close>, \<open>Math.max\<close>, \<open>Math.cos\<close>, \<open>Math.sin\<close>, \<open>Math.exp\<close>, \<open>isFinite\<close>.\<close>

fun Math_abs :: "jsnum \<Rightarrow> jsnum" where
  "Math_abs (Fin a) = Fin \<bar>a\<bar>"
| "Math_abs PInf = PInf"
| "Math_abs NInf = PInf"
| "Math_abs NaN = NaN"

definition Math_min :: "jsnum \<Rightarrow> jsnum \<Rightarrow> jsnum" where
  "Math_min a b = (if a = NaN \<or> b = NaN then NaN else if js_lt b a then b else a)"

definition Math_max :: "jsnum \<Rightarrow> jsnum \<Rightarrow> jsnum" where
  "Math_max a b = (if a = NaN \<or> b = NaN then NaN else if js_lt a b then b else a)"

fun Math_cos :: "jsnum \<Rightarrow> jsnum" where
  "Math_cos (Fin a) = Fin (cos a)"
| "Math_cos _ = NaN"

fun Math_sin :: "jsnum \<Rightarrow> jsnum" where
  "Math_sin (Fin a) = Fin (sin a)"
| "Math_sin _ = NaN"

fun Math_exp :: "jsnum \<Rightarrow> jsnum" where
  "Math_exp (Fin a) = Fin (exp a)"
| "Math_exp PInf = PInf"
| "Math_exp NInf = Fin 0"
| "Math_exp NaN = NaN"

fun isFinite :: "jsnum \<Rightarrow> bool" where
  "isFinite (Fin a) = True"
| "isFinite _ = False"

section \<open>The fragment shaders\<close>

type_synonym vec2 = "jsnum \<times> jsnum"

text \<open>A colour is \<open>(r, g, b, a)\<close>; a texture maps a coordinate to the colour sampled there.\<close>

type_synonym vec4 = "jsnum \<times> jsnum \<times> jsnum \<times> jsnum"

type_synonym sampler2D = "vec2 \<Rightarrow> vec4"

definition dot2 :: "vec2 \<Rightarrow> vec2 \<Rightarrow> jsnum" where
  "dot2 a b = js_add (js_mul (fst a) (fst b)) (js_mul (snd a) (snd b))"

text \<open>The test both shaders make on the source coordinate before sampling.\<close>

definition uv_outside :: "vec2 \<Rightarrow> bool" where
  "uv_outside uv =
     (js_lt (fst uv) (Fin 0) \<or> js_gt (fst uv) (Fin 1) \<or>
      js_lt (snd uv) (Fin 0) \<or> js_gt (snd uv) (Fin 1))"

text \<open>
  Single-image mode (\<open>fsSource\<close> of the lens corrector): the source coordinate \<open>uv\<close> that
  the shader computes for the destination coordinate \<open>v_texCoord\<close>, and the colour it
  writes.
\<close>

definition fsSource_uv :: "jsnum \<Rightarrow> jsnum \<Rightarrow> vec2 \<Rightarrow> vec2" where
  "fsSource_uv u_strength u_zoom v_texCoord =
     (let coord = (js_sub (fst v_texCoord) (Fin (1/2)), js_sub (snd v_texCoord) (Fin (1/2)));
          r2 = dot2 coord coord;
          f = js_add (Fin 1) (js_mul u_strength r2);
          dist_coord = (js_mul (fst coord) f, js_mul (snd coord) f);
          final_coord = (js_div (fst dist_coord) u_zoom, js_div (snd dist_coord) u_zoom)
      in (js_add (fst final_coord) (Fin (1/2)), js_add (snd final_coord) (Fin (1/2))))"

definition fsSource :: "sampler2D \<Rightarrow> jsnum \<Rightarrow> jsnum \<Rightarrow> vec2 \<Rightarrow> vec4" where
  "fsSource u_image u_strength u_zoom v_texCoord =
     (let uv = fsSource_uv u_strength u_zoom v_texCoord
      in if uv_outside uv then (Fin 0, Fin 0, Fin 0, Fin 0) else u_image uv)"

text \<open>
  Layered mode (\<open>FS_SOURCE\<close> of the panorama editor): the fragment is either discarded or
  written with the sampled colour, its alpha scaled by the layer's opacity.
\<close>

datatype fragment = Discard | FragColor vec4

definition FS_SOURCE_uv :: "jsnum \<Rightarrow> vec2 \<Rightarrow> vec2" where
  "FS_SOURCE_uv u_distortion v_texCoord =
     (let coord = (js_sub (fst v_texCoord) (Fin (1/2)), js_sub (snd v_texCoord) (Fin (1/2)));
          r2 = dot2 coord coord;
          f = js_add (Fin 1) (js_mul u_distortion r2);
          dist_coord = (js_mul (fst coord) f, js_mul (snd coord) f)
      in (js_add (fst dist_coord) (Fin (1/2)), js_add (snd dist_coord) (Fin (1/2))))"

definition FS_SOURCE :: "sampler2D \<Rightarrow> jsnum \<Rightarrow> jsnum \<Rightarrow> vec2 \<Rightarrow> fragment" where
  "FS_SOURCE u_image u_distortion u_opacity v_texCoord =
     (let uv = FS_SOURCE_uv u_distortion v_texCoord
      in if uv_outside uv then Discard
         else (case u_image uv of (r, g, b, a) \<Rightarrow> FragColor (r, g, b, js_mul a u_opacity)))"

text \<open>A texture that is opaque white everywhere.\<close>

definition white :: vec4 where
  "white = (Fin 1, Fin 1, Fin 1, Fin 1)"

definition white_image :: sampler2D where
  "white_image uv = white"

text \<open>
  The editor enables blending with \<open>blendFunc(SRC_ALPHA, ONE_MINUS_SRC_ALPHA)\<close>: a written
  fragment is combined with the pixel already in the frame buffer, a discarded one leaves
  that pixel as it is.
\<close>

definition blend :: "vec4 \<Rightarrow> vec4 \<Rightarrow> vec4" where
  "blend src dst =
     (case src of (sr, sg, sb, sa) \<Rightarrow> case dst of (dr, dg, db, da) \<Rightarrow>
        (let inv = js_sub (Fin 1) sa
         in (js_add (js_mul sr sa) (js_mul dr inv),
             js_add (js_mul sg sa) (js_mul dg inv),
             js_add (js_mul sb sa) (js_mul db inv),
             js_add (js_mul sa sa) (js_mul da inv))))"

fun write_fragment :: "fragment \<Rightarrow> vec4 \<Rightarrow> vec4" where
  "write_fragment Discard dst = dst"
| "write_fragment (FragColor src) dst = blend src dst"

section \<open>Matrices\<close>

text \<open>
  A 3x3 matrix is the array of its nine entries, \<open>[a, b, 0, c, d, 0, tx, ty, 1]\<close>, as the
  editor hands it to \<open>uniformMatrix3fv\<close>.
\<close>

type_synonym m3 = "jsnum list"

definition m3_projection :: "jsnum \<Rightarrow> jsnum \<Rightarrow> m3" where
  "m3_projection width height =
     [js_div (Fin 2) width, Fin 0, Fin 0,
      Fin 0, js_div (Fin (- 2)) height, Fin 0,
      Fin (- 1), Fin 1, Fin 1]"

definition m3_translation :: "jsnum \<Rightarrow> jsnum \<Rightarrow> m3" where
  "m3_translation tx ty =
     [Fin 1, Fin 0, Fin 0,
      Fin 0, Fin 1, Fin 0,
      tx, ty, Fin 1]"

definition m3_rotation :: "jsnum \<Rightarrow> m3" where
  "m3_rotation angleInRadians =
     (let c = Math_cos angleInRadians; s = Math_sin angleInRadians
      in [c, js_neg s, Fin 0,
          s, c, Fin 0,
          Fin 0, Fin 0, Fin 1])"

definition m3_scale :: "jsnum \<Rightarrow> jsnum \<Rightarrow> m3" where
  "m3_scale sx sy =
     [sx, Fin 0, Fin 0,
      Fin 0, sy, Fin 0,
      Fin 0, Fin 0, Fin 1]"

text \<open>The sum of three products that every entry of a product matrix is.\<close>

definition row_col :: "jsnum \<Rightarrow> jsnum \<Rightarrow> jsnum \<Rightarrow> jsnum \<Rightarrow> jsnum \<Rightarrow> jsnum \<Rightarrow> jsnum" where
  "row_col p a q b r c = js_add (js_add (js_mul p a) (js_mul q b)) (js_mul r c)"

definition m3_multiply :: "m3 \<Rightarrow> m3 \<Rightarrow> m3" where
  "m3_multiply a b =
     (let a00 = a ! (0 * 3 + 0); a01 = a ! (0 * 3 + 1); a02 = a ! (0 * 3 + 2);
          a10 = a ! (1 * 3 + 0); a11 = a ! (1 * 3 + 1); a12 = a ! (1 * 3 + 2);
          a20 = a ! (2 * 3 + 0); a21 = a ! (2 * 3 + 1); a22 = a ! (2 * 3 + 2);
          b00 = b ! (0 * 3 + 0); b01 = b ! (0 * 3 + 1); b02 = b ! (0 * 3 + 2);
          b10 = b ! (1 * 3 + 0); b11 = b ! (1 * 3 + 1); b12 = b ! (1 * 3 + 2);
          b20 = b ! (2 * 3 + 0); b21 = b ! (2 * 3 + 1); b22 = b ! (2 * 3 + 2)
      in [row_col b00 a00 b01 a10 b02 a20,
          row_col b00 a01 b01 a11 b02 a21,
          row_col b00 a02 b01 a12 b02 a22,
          row_col b10 a00 b11 a10 b12 a20,
          row_col b10 a01 b11 a11 b12 a21,
          row_col b10 a02 b11 a12 b12 a22,
          row_col b20 a00 b21 a10 b22 a20,
          row_col b20 a01 b21 a11 b22 a21,
          row_col b20 a02 b21 a12 b22 a22])"

text \<open>
  The vertex shader \<open>VS_SOURCE\<close>: \<open>u_matrix * vec3(a_position, 1)\<close>, of which \<open>xy\<close> becomes
  the position. The nine entries are uploaded untransposed, so they fill the matrix
  column by column: entries 0, 1, 2 are its first column.
\<close>

definition VS_SOURCE :: "m3 \<Rightarrow> vec2 \<Rightarrow> vec2" where
  "VS_SOURCE u_matrix a_position =
     (let px = fst a_position; py = snd a_position
      in (row_col (u_matrix ! 0) px (u_matrix ! 3) py (u_matrix ! 6) (Fin 1),
          row_col (u_matrix ! 1) px (u_matrix ! 4) py (u_matrix ! 7) (Fin 1)))"

section \<open>Rounding\<close>

text \<open>
  A JavaScript number has 53 significant bits and a single-precision float 24. The result
  of an operation is the exact result rounded to the nearest number of the format, a tie
  going to the neighbour whose last bit is even.
\<close>




text \<open>The power of two with an integer exponent.\<close>

definition pow2 :: "int \<Rightarrow> real" where
  "pow2 k = (if 0 \<le> k then 2 ^ nat k else 1 / 2 ^ nat (- k))"











section \<open>The editor's state\<close>

text \<open>
  A layer: its field \<open>x\<close> is \<open>layer_x\<close> here, and so on, as the field \<open>x\<close> of the view is
  \<open>view_x\<close>. The decoded image is left out: only its size is read, and that is copied into
  \<open>width\<close> and \<open>height\<close> when the layer is made. A texture is the name of a texture
  object of the WebGL context.
\<close>

record ImageLayer =
  layer_id :: string
  layer_name :: string
  layer_texture :: "nat option"
  layer_x :: jsnum
  layer_y :: jsnum
  layer_width :: jsnum
  layer_height :: jsnum
  layer_scale :: jsnum
  layer_rotation :: jsnum
  layer_distortion :: jsnum
  layer_opacity :: jsnum
  layer_zIndex :: int

record View =
  view_x :: jsnum
  view_y :: jsnum
  view_scale :: jsnum

text \<open>
  The state of the component: its React state, and the textures that exist in the WebGL
  context of \<open>glRef\<close> (\<open>None\<close> while there is no context).
\<close>

record Editor =
  layers :: "ImageLayer list"
  activeLayerId :: "string option"
  isDragging :: bool
  isPanning :: bool
  isSpacePressed :: bool
  dragStart :: vec2
  initialPos :: vec2
  initialView :: vec2
  canvasSize :: vec2
  view :: View
  gl :: "nat list option"

text \<open>The state in which the component starts, once its WebGL context has been made.\<close>

definition initial_view :: View where
  "initial_view = \<lparr>view_x = Fin 0, view_y = Fin 0, view_scale = Fin 1\<rparr>"

definition initial_editor :: Editor where
  "initial_editor =
     \<lparr>layers = [], activeLayerId = None, isDragging = False, isPanning = False,
      isSpacePressed = False, dragStart = (Fin 0, Fin 0), initialPos = (Fin 0, Fin 0),
      initialView = (Fin 0, Fin 0), canvasSize = (Fin 800, Fin 600), view = initial_view,
      gl = Some []\<rparr>"

section \<open>Drawing a layer\<close>

text \<open>
  \<open>render\<close> draws the layers in ascending \<open>zIndex\<close>; \<open>Array.prototype.sort\<close> is stable, as
  \<open>sort_key\<close> is.
\<close>

definition sorted_layers :: "ImageLayer list \<Rightarrow> ImageLayer list" where
  "sorted_layers ls = sort_key layer_zIndex ls"

definition view_matrix :: "View \<Rightarrow> m3" where
  "view_matrix v =
     m3_multiply (m3_translation (view_x v) (view_y v)) (m3_scale (view_scale v) (view_scale v))"

definition model_matrix :: "ImageLayer \<Rightarrow> m3" where
  "model_matrix layer =
     m3_multiply
       (m3_multiply (m3_translation (layer_x layer) (layer_y layer))
          (m3_rotation (layer_rotation layer)))
       (m3_scale (js_mul (layer_width layer) (layer_scale layer))
          (js_mul (layer_height layer) (layer_scale layer)))"

text \<open>The matrix \<open>render\<close> hands to the vertex shader for a layer, on a canvas of the given size.\<close>

definition finalMatrix :: "jsnum \<Rightarrow> jsnum \<Rightarrow> View \<Rightarrow> ImageLayer \<Rightarrow> m3" where
  "finalMatrix drawingBufferWidth drawingBufferHeight v layer =
     (let projection = m3_projection drawingBufferWidth drawingBufferHeight;
          viewProjection = m3_multiply projection (view_matrix v)
      in m3_multiply viewProjection (model_matrix layer))"

text \<open>
  Where a point of the unit quad is drawn, in pixels of the canvas: the chain of
  \<open>render\<close> without its last step, the projection of pixels to clip space.
\<close>

definition place :: "View \<Rightarrow> ImageLayer \<Rightarrow> vec2 \<Rightarrow> vec2" where
  "place v layer p = VS_SOURCE (m3_multiply (view_matrix v) (model_matrix layer)) p"

section \<open>Pointer events\<close>

record MouseEvent =
  clientX :: jsnum
  clientY :: jsnum
  button :: int

text \<open>The local coordinates \<open>(localX, localY)\<close> of the world point \<open>(wx, wy)\<close> in a layer.\<close>

definition local_point :: "jsnum \<Rightarrow> jsnum \<Rightarrow> ImageLayer \<Rightarrow> vec2" where
  "local_point wx wy layer =
     (let lx1 = js_sub wx (layer_x layer);
          ly1 = js_sub wy (layer_y layer);
          cos = Math_cos (js_neg (layer_rotation layer));
          sin = Math_sin (js_neg (layer_rotation layer));
          lx2 = js_sub (js_mul lx1 cos) (js_mul ly1 sin);
          ly2 = js_add (js_mul lx1 sin) (js_mul ly1 cos);
          localX = js_div lx2 (js_mul (layer_width layer) (layer_scale layer));
          localY = js_div ly2 (js_mul (layer_height layer) (layer_scale layer))
      in (localX, localY))"

definition in_bounds :: "vec2 \<Rightarrow> bool" where
  "in_bounds local =
     (js_le (Math_abs (fst local)) (Fin (1/2)) \<and> js_le (Math_abs (snd local)) (Fin (1/2)))"

text \<open>The loop over \<open>sortedReverse\<close>: the id of the first layer that contains the point.\<close>

fun hit_loop :: "jsnum \<Rightarrow> jsnum \<Rightarrow> ImageLayer list \<Rightarrow> string option" where
  "hit_loop wx wy [] = None"
| "hit_loop wx wy (layer # rest) =
     (if in_bounds (local_point wx wy layer) then Some (layer_id layer)
      else hit_loop wx wy rest)"

definition sortedReverse :: "ImageLayer list \<Rightarrow> ImageLayer list" where
  "sortedReverse ls = sort_key (\<lambda>l. - layer_zIndex l) ls"

text \<open>The hit test of \<open>handleMouseDown\<close> for the canvas point \<open>(mx, my)\<close>.\<close>

definition hitLayerId :: "View \<Rightarrow> ImageLayer list \<Rightarrow> jsnum \<Rightarrow> jsnum \<Rightarrow> string option" where
  "hitLayerId v ls mx my =
     (let wx = js_div (js_sub mx (view_x v)) (view_scale v);
          wy = js_div (js_sub my (view_y v)) (view_scale v)
      in hit_loop wx wy (sortedReverse ls))"

text \<open>The test of one layer alone.\<close>

definition hits :: "View \<Rightarrow> ImageLayer \<Rightarrow> vec2 \<Rightarrow> bool" where
  "hits v layer m =
     (let wx = js_div (js_sub (fst m) (view_x v)) (view_scale v);
          wy = js_div (js_sub (snd m) (view_y v)) (view_scale v)
      in in_bounds (local_point wx wy layer))"

definition start_panning :: "MouseEvent \<Rightarrow> Editor \<Rightarrow> Editor" where
  "start_panning e s =
     s\<lparr>isPanning := True, dragStart := (clientX e, clientY e),
       initialView := (view_x (view s), view_y (view s))\<rparr>"

text \<open>
  \<open>handleMouseDown\<close>; \<open>rect\<close> is the corner \<open>(rect.left, rect.top)\<close> of the canvas, when the canvas is
  there. An id that is the empty string counts as no hit in \<open>if (hitLayerId)\<close>.
\<close>

definition handleMouseDown :: "vec2 option \<Rightarrow> MouseEvent \<Rightarrow> Editor \<Rightarrow> Editor" where
  "handleMouseDown rect e s =
     (case rect of
        None \<Rightarrow> s
      | Some (rect_left, rect_top) \<Rightarrow>
          (let isMiddleClick = (button e = 1);
               isPanTrigger = (isSpacePressed s \<or> isMiddleClick)
           in if isPanTrigger then start_panning e s
              else
                (let mx = js_sub (clientX e) rect_left;
                     my = js_sub (clientY e) rect_top
                 in case hitLayerId (view s) (layers s) mx my of
                      Some hit \<Rightarrow>
                        if hit \<noteq> [] then
                          (let s1 = s\<lparr>activeLayerId := Some hit, isDragging := True,
                                      dragStart := (clientX e, clientY e)\<rparr>
                           in case find (\<lambda>l. layer_id l = hit) (layers s) of
                                Some layer \<Rightarrow> s1\<lparr>initialPos := (layer_x layer, layer_y layer)\<rparr>
                              | None \<Rightarrow> s1)
                        else start_panning e (s\<lparr>activeLayerId := None\<rparr>)
                    | None \<Rightarrow> start_panning e (s\<lparr>activeLayerId := None\<rparr>))))"

section \<open>Editing layers\<close>

text \<open>A \<open>Partial<ImageLayer>\<close>: each field is either supplied or absent.\<close>

record LayerUpdates =
  upd_id :: "string option"
  upd_name :: "string option"
  upd_texture :: "nat option option"
  upd_x :: "jsnum option"
  upd_y :: "jsnum option"
  upd_width :: "jsnum option"
  upd_height :: "jsnum option"
  upd_scale :: "jsnum option"
  upd_rotation :: "jsnum option"
  upd_distortion :: "jsnum option"
  upd_opacity :: "jsnum option"
  upd_zIndex :: "int option"

definition no_updates :: LayerUpdates where
  "no_updates =
     \<lparr>upd_id = None, upd_name = None, upd_texture = None, upd_x = None, upd_y = None,
      upd_width = None, upd_height = None, upd_scale = None, upd_rotation = None,
      upd_distortion = None, upd_opacity = None, upd_zIndex = None\<rparr>"

text \<open>The field of \<open>{...l, ...updates}\<close>: the supplied value, or else the layer's own.\<close>

fun spread :: "'a \<Rightarrow> 'a option \<Rightarrow> 'a" where
  "spread old None = old"
| "spread old (Some new) = new"

definition merge_updates :: "ImageLayer \<Rightarrow> LayerUpdates \<Rightarrow> ImageLayer" where
  "merge_updates l updates =
     \<lparr>layer_id = spread (layer_id l) (upd_id updates),
      layer_name = spread (layer_name l) (upd_name updates),
      layer_texture = spread (layer_texture l) (upd_texture updates),
      layer_x = spread (layer_x l) (upd_x updates),
      layer_y = spread (layer_y l) (upd_y updates),
      layer_width = spread (layer_width l) (upd_width updates),
      layer_height = spread (layer_height l) (upd_height updates),
      layer_scale = spread (layer_scale l) (upd_scale updates),
      layer_rotation = spread (layer_rotation l) (upd_rotation updates),
      layer_distortion = spread (layer_distortion l) (upd_distortion updates),
      layer_opacity = spread (layer_opacity l) (upd_opacity updates),
      layer_zIndex = spread (layer_zIndex l) (upd_zIndex updates)\<rparr>"

definition updateLayer :: "string \<Rightarrow> LayerUpdates \<Rightarrow> Editor \<Rightarrow> Editor" where
  "updateLayer i updates s =
     s\<lparr>layers := map (\<lambda>l. if layer_id l = i then merge_updates l updates else l) (layers s)\<rparr>"

definition deleteLayer :: "string \<Rightarrow> Editor \<Rightarrow> Editor" where
  "deleteLayer i s =
     (let s1 = s\<lparr>layers := filter (\<lambda>l. layer_id l \<noteq> i) (layers s)\<rparr>
      in if activeLayerId s = Some i then s1\<lparr>activeLayerId := None\<rparr> else s1)"

text \<open>
  \<open>createTexture\<close>: without a context it returns null; otherwise the context makes a new
  texture object, and the image is uploaded to it.
\<close>

definition createTexture :: "nat list option \<Rightarrow> nat option \<times> nat list option" where
  "createTexture g =
     (case g of
        None \<Rightarrow> (None, None)
      | Some textures \<Rightarrow>
          (let texture = Suc (fold max textures 0) in (Some texture, Some (textures @ [texture]))))"

text \<open>
  The \<open>onload\<close> handler of an image read by \<open>handleFileUpload\<close>: \<open>random_id\<close> is the id that
  \<open>Math.random\<close> gives, \<open>img_width\<close> and \<open>img_height\<close> the size of the decoded image. The
  handler reads \<open>layers\<close> and \<open>canvasSize\<close> from its closure, the state \<open>c\<close> in which the
  files were chosen, and appends the new layer to the layers of the state \<open>s\<close> it runs in.
\<close>

definition img_onload :: "string \<Rightarrow> string \<Rightarrow> jsnum \<Rightarrow> jsnum \<Rightarrow> Editor \<Rightarrow> Editor \<Rightarrow> Editor" where
  "img_onload random_id file_name img_width img_height c s =
     (case createTexture (gl s) of (tex, g) \<Rightarrow>
        (let newLayer =
               \<lparr>layer_id = random_id,
                layer_name = file_name,
                layer_texture = tex,
                layer_x = js_div (fst (canvasSize c)) (Fin 2),
                layer_y = js_div (snd (canvasSize c)) (Fin 2),
                layer_width = img_width,
                layer_height = img_height,
                layer_scale = Fin (1/2),
                layer_rotation = Fin 0,
                layer_distortion = Fin 0,
                layer_opacity = Fin (8/10),
                layer_zIndex = int (length (layers c)) + 1\<rparr>
         in s\<lparr>layers := layers s @ [newLayer], activeLayerId := Some (layer_id newLayer), gl := g\<rparr>))"

text \<open>An upload whose image loads before anything else happens.\<close>

definition addLayer :: "string \<Rightarrow> string \<Rightarrow> jsnum \<Rightarrow> jsnum \<Rightarrow> Editor \<Rightarrow> Editor" where
  "addLayer random_id file_name img_width img_height s =
     img_onload random_id file_name img_width img_height s s"

section \<open>Moving and zooming\<close>

definition handleMouseMove :: "MouseEvent \<Rightarrow> Editor \<Rightarrow> Editor" where
  "handleMouseMove e s =
     (if isPanning s then
        (let dx = js_sub (clientX e) (fst (dragStart s));
             dy = js_sub (clientY e) (snd (dragStart s))
         in s\<lparr>view := (view s)\<lparr>view_x := js_add (fst (initialView s)) dx,
                                 view_y := js_add (snd (initialView s)) dy\<rparr>\<rparr>)
      else
        (case activeLayerId s of
           Some active \<Rightarrow>
             if isDragging s \<and> active \<noteq> [] then
               (let dx = js_div (js_sub (clientX e) (fst (dragStart s))) (view_scale (view s));
                    dy = js_div (js_sub (clientY e) (snd (dragStart s))) (view_scale (view s))
                in updateLayer active
                     (no_updates\<lparr>upd_x := Some (js_add (fst (initialPos s)) dx),
                                 upd_y := Some (js_add (snd (initialPos s)) dy)\<rparr>) s)
             else s
         | None \<Rightarrow> s))"

definition handleMouseUp :: "Editor \<Rightarrow> Editor" where
  "handleMouseUp s = s\<lparr>isDragging := False, isPanning := False\<rparr>"

record WheelEvent = MouseEvent +
  ctrlKey :: bool
  deltaX :: jsnum
  deltaY :: jsnum

text \<open>
  \<open>handleWheel\<close>, as the update of the view that it passes to \<open>setView\<close>; \<open>rect\<close> is the corner
  \<open>(rect.left, rect.top)\<close> of the canvas.
\<close>

definition handleWheel :: "vec2 \<Rightarrow> 'a WheelEvent_scheme \<Rightarrow> View \<Rightarrow> View" where
  "handleWheel rect e prevView =
     (if ctrlKey e then
        (let zoomIntensity = Fin (1/100);
             mouseX = js_sub (clientX e) (fst rect);
             mouseY = js_sub (clientY e) (snd rect);
             delta = js_neg (deltaY e);
             scaleFactor = Math_exp (js_mul delta zoomIntensity);
             newScale = js_mul (view_scale prevView) scaleFactor;
             newScale = Math_max (Fin (1/10)) (Math_min newScale (Fin 10));
             worldX = js_div (js_sub mouseX (view_x prevView)) (view_scale prevView);
             worldY = js_div (js_sub mouseY (view_y prevView)) (view_scale prevView);
             newX = js_sub mouseX (js_mul worldX newScale);
             newY = js_sub mouseY (js_mul worldY newScale)
         in \<lparr>view_x = newX, view_y = newY, view_scale = newScale\<rparr>)
      else
        prevView\<lparr>view_x := js_sub (view_x prevView) (deltaX e),
                 view_y := js_sub (view_y prevView) (deltaY e)\<rparr>)"

text \<open>The world point that the view shows at a point of the canvas.\<close>

definition world_point :: "View \<Rightarrow> vec2 \<Rightarrow> vec2" where
  "world_point v m =
     (js_div (js_sub (fst m) (view_x v)) (view_scale v),
      js_div (js_sub (snd m) (view_y v)) (view_scale v))"

text \<open>The buttons \<open>+\<close>, \<open>-\<close> and \<open>Reset View\<close>.\<close>

definition zoom_in :: "View \<Rightarrow> View" where
  "zoom_in v = v\<lparr>view_scale := js_mul (view_scale v) (Fin (11/10))\<rparr>"

definition zoom_out :: "View \<Rightarrow> View" where
  "zoom_out v = v\<lparr>view_scale := js_div (view_scale v) (Fin (11/10))\<rparr>"

definition reset_view :: "View \<Rightarrow> View" where
  "reset_view v = \<lparr>view_x = Fin 0, view_y = Fin 0, view_scale = Fin 1\<rparr>"

text \<open>\<open>fitToScreen\<close>: the bounds are \<open>(minX, maxX, minY, maxY)\<close>.\<close>

type_synonym bounds = "jsnum \<times> jsnum \<times> jsnum \<times> jsnum"

definition corners :: "vec2 list" where
  "corners = [(Fin (- 1/2), Fin (- 1/2)), (Fin (1/2), Fin (- 1/2)),
              (Fin (1/2), Fin (1/2)), (Fin (- 1/2), Fin (1/2))]"

definition add_corner :: "ImageLayer \<Rightarrow> vec2 \<Rightarrow> bounds \<Rightarrow> bounds" where
  "add_corner layer corner b =
     (case b of (minX, maxX, minY, maxY) \<Rightarrow>
        (let x = js_mul (js_mul (fst corner) (layer_width layer)) (layer_scale layer);
             y = js_mul (js_mul (snd corner) (layer_height layer)) (layer_scale layer);
             cos = Math_cos (layer_rotation layer);
             sin = Math_sin (layer_rotation layer);
             rx = js_sub (js_mul x cos) (js_mul y sin);
             ry = js_add (js_mul x sin) (js_mul y cos);
             wx = js_add rx (layer_x layer);
             wy = js_add ry (layer_y layer)
         in (if js_lt wx minX then wx else minX,
             if js_gt wx maxX then wx else maxX,
             if js_lt wy minY then wy else minY,
             if js_gt wy maxY then wy else maxY)))"

definition layer_bounds :: "ImageLayer list \<Rightarrow> bounds" where
  "layer_bounds ls =
     fold (\<lambda>layer b. fold (add_corner layer) corners b) ls (PInf, NInf, PInf, NInf)"

definition fit_view :: "ImageLayer list \<Rightarrow> vec2 \<Rightarrow> View" where
  "fit_view ls canvas =
     (case layer_bounds ls of (minX, maxX, minY, maxY) \<Rightarrow>
        (let boundsW = js_sub maxX minX;
             boundsH = js_sub maxY minY;
             centerX = js_div (js_add minX maxX) (Fin 2);
             centerY = js_div (js_add minY maxY) (Fin 2);
             padding = Fin 50;
             availW = js_sub (fst canvas) (js_mul padding (Fin 2));
             availH = js_sub (snd canvas) (js_mul padding (Fin 2));
             scaleW = js_div availW boundsW;
             scaleH = js_div availH boundsH;
             newScale = Math_min scaleW scaleH;
             newScale = (if \<not> isFinite newScale \<or> js_eq newScale (Fin 0) then Fin 1 else newScale);
             newX = js_sub (js_div (fst canvas) (Fin 2)) (js_mul centerX newScale);
             newY = js_sub (js_div (snd canvas) (Fin 2)) (js_mul centerY newScale)
         in \<lparr>view_x = newX, view_y = newY, view_scale = newScale\<rparr>))"

definition fitToScreen :: "Editor \<Rightarrow> Editor" where
  "fitToScreen s =
     (if length (layers s) = 0 then s\<lparr>view := \<lparr>view_x = Fin 0, view_y = Fin 0, view_scale = Fin 1\<rparr>\<rparr>
      else s\<lparr>view := fit_view (layers s) (canvasSize s)\<rparr>)"

section \<open>Degenerate layers\<close>

text \<open>A layer is degenerate when its extent on the canvas is zero in one direction.\<close>

definition zero_extent :: "ImageLayer \<Rightarrow> bool" where
  "zero_extent layer =
     (js_mul (layer_width layer) (layer_scale layer) = Fin 0 \<or>
      js_mul (layer_height layer) (layer_scale layer) = Fin 0)"

section \<open>Example states\<close>

definition flat_layer :: ImageLayer where
  "flat_layer =
     \<lparr>layer_id = ''f'', layer_name = ''f.png'', layer_texture = Some 1,
      layer_x = Fin 400, layer_y = Fin 300, layer_width = Fin 0, layer_height = Fin 100,
      layer_scale = Fin 1, layer_rotation = Fin 0, layer_distortion = Fin 0,
      layer_opacity = Fin 1, layer_zIndex = 1\<rparr>"

text \<open>An image of 200 by 100 pixels at full scale, turned by 45 degrees.\<close>

definition rotated_layer :: ImageLayer where
  "rotated_layer =
     \<lparr>layer_id = ''a'', layer_name = ''a.png'', layer_texture = Some 1,
      layer_x = Fin 400, layer_y = Fin 300, layer_width = Fin 200, layer_height = Fin 100,
      layer_scale = Fin 1, layer_rotation = Fin (pi / 4), layer_distortion = Fin 0,
      layer_opacity = Fin 1, layer_zIndex = 1\<rparr>"

text \<open>The same image, not turned.\<close>

definition upright_layer :: ImageLayer where
  "upright_layer = rotated_layer\<lparr>layer_rotation := Fin 0\<rparr>"

text \<open>
  The editor with the turned image selected, and a pointer-down on the pixel at which the
  middle of the right edge of that image is drawn.
\<close>

definition rotated_editor :: Editor where
  "rotated_editor = initial_editor\<lparr>layers := [rotated_layer], activeLayerId := Some ''a''\<rparr>"

definition edge_click :: MouseEvent where
  "edge_click =
     \<lparr>clientX = Fin (400 + 50 * sqrt 2), clientY = Fin (300 - 50 * sqrt 2), button = 0\<rparr>"

definition click :: MouseEvent where
  "click = \<lparr>clientX = Fin 400, clientY = Fin 300, button = 0\<rparr>"

text \<open>A pinch that zooms in by far more than the range allows, and a view to apply it to.\<close>

definition pinch :: WheelEvent where
  "pinch = \<lparr>clientX = Fin 120, clientY = Fin 80, button = 0, ctrlKey = True,
            deltaX = Fin 0, deltaY = Fin (- 1000)\<rparr>"

definition zoomed_view :: View where
  "zoomed_view = \<lparr>view_x = Fin 10, view_y = Fin 20, view_scale = Fin 2\<rparr>"

text \<open>Editors after one upload, of an image of 100 by 100 pixels and of one of 64 by 64.\<close>

definition one_upload :: Editor where
  "one_upload = addLayer ''a'' ''a.png'' (Fin 100) (Fin 100) initial_editor"

definition small_upload :: Editor where
  "small_upload = addLayer ''a'' ''a.png'' (Fin 64) (Fin 64) initial_editor"

text \<open>Three uploads; then the two oldest layers are deleted and a fourth image is uploaded.\<close>

definition three_uploads :: Editor where
  "three_uploads =
     addLayer ''c'' ''c.png'' (Fin 100) (Fin 100)
       (addLayer ''b'' ''b.png'' (Fin 100) (Fin 100)
          (addLayer ''a'' ''a.png'' (Fin 100) (Fin 100) initial_editor))"

definition upload_after_deletes :: Editor where
  "upload_after_deletes =
     addLayer ''d'' ''d.png'' (Fin 100) (Fin 100)
       (deleteLayer ''b'' (deleteLayer ''a'' three_uploads))"

section \<open>The distortion map\<close>

lemma corner_outside_iff:
  assumes "cx = 0 \<or> cx = 1" and "cy = 0 \<or> cy = 1"
  shows "uv_outside (fsSource_uv (Fin k) (Fin 1) (Fin cx, Fin cy)) \<longleftrightarrow> 0 < k \<or> k < - 4"
proof -
  have "fsSource_uv (Fin k) (Fin 1) (Fin cx, Fin cy) =
          (Fin ((cx - 1/2) * (1 + k / 2) + 1/2), Fin ((cy - 1/2) * (1 + k / 2) + 1/2))"
    using assms by (auto simp add: fsSource_uv_def dot2_def js_sub_def)
  then have "uv_outside (fsSource_uv (Fin k) (Fin 1) (Fin cx, Fin cy)) \<longleftrightarrow>
     (cx - 1/2) * (1 + k / 2) + 1/2 < 0 \<or> 1 < (cx - 1/2) * (1 + k / 2) + 1/2 \<or>
     (cy - 1/2) * (1 + k / 2) + 1/2 < 0 \<or> 1 < (cy - 1/2) * (1 + k / 2) + 1/2"
    by (simp add: js_gt_def uv_outside_def)
  also have "\<dots> \<longleftrightarrow> 0 < k \<or> k < - 4"
    using assms by (auto simp add: field_simps)
  finally show ?thesis .
qed

text \<open>
  Claim C1 says that in single-image mode, at zoom 1 and \<open>k = -1.0\<close>, each corner texture
  coordinate is mapped outside the unit square and so is drawn transparent. It is not: the
  corner \<open>(0, 0)\<close> is mapped to \<open>(0.25, 0.25)\<close>, inside the square, and of an opaque white
  image the shader writes opaque white there.
\<close>

theorem fsSource_corner_sampled:
  "fsSource_uv (Fin (- 1)) (Fin 1) (Fin 0, Fin 0) = (Fin (1/4), Fin (1/4)) \<and>
   \<not> uv_outside (fsSource_uv (Fin (- 1)) (Fin 1) (Fin 0, Fin 0)) \<and>
   fsSource white_image (Fin (- 1)) (Fin 1) (Fin 0, Fin 0) = (Fin 1, Fin 1, Fin 1, Fin 1)"
  by (simp add: fsSource_def fsSource_uv_def dot2_def js_sub_def js_gt_def uv_outside_def
      white_image_def white_def)

text \<open>
  Claim C1, amended. In single-image mode, at zoom 1 and \<open>k = -1.0\<close>, each of the four
  corner texture coordinates is mapped half way towards the centre, to a source coordinate
  inside the unit square, so each corner pixel shows the colour sampled there; the centre
  samples its own location.
\<close>

theorem fsSource_barrel_corners:
  assumes "cx = 0 \<or> cx = 1" and "cy = 0 \<or> cy = 1"
  shows "fsSource_uv (Fin (- 1)) (Fin 1) (Fin cx, Fin cy) = (Fin (cx / 2 + 1/4), Fin (cy / 2 + 1/4)) \<and>
         \<not> uv_outside (fsSource_uv (Fin (- 1)) (Fin 1) (Fin cx, Fin cy)) \<and>
         fsSource u_image (Fin (- 1)) (Fin 1) (Fin cx, Fin cy) =
           u_image (Fin (cx / 2 + 1/4), Fin (cy / 2 + 1/4)) \<and>
         fsSource_uv (Fin (- 1)) (Fin 1) (Fin (1/2), Fin (1/2)) = (Fin (1/2), Fin (1/2)) \<and>
         fsSource u_image (Fin (- 1)) (Fin 1) (Fin (1/2), Fin (1/2)) = u_image (Fin (1/2), Fin (1/2))"
proof -
  have uv: "fsSource_uv (Fin (- 1)) (Fin 1) (Fin cx, Fin cy) = (Fin (cx / 2 + 1/4), Fin (cy / 2 + 1/4))"
    using assms by (elim disjE) (simp_all add: fsSource_uv_def dot2_def js_sub_def)
  have inside: "\<not> uv_outside (Fin (cx / 2 + 1/4), Fin (cy / 2 + 1/4))"
    using assms by (elim disjE) (simp_all add: uv_outside_def js_gt_def)
  have centre: "fsSource_uv (Fin (- 1)) (Fin 1) (Fin (1/2), Fin (1/2)) = (Fin (1/2), Fin (1/2))"
    by (simp add: fsSource_uv_def dot2_def js_sub_def)
  have "\<not> uv_outside (Fin (1/2), Fin (1/2))"
    by (simp add: uv_outside_def js_gt_def)
  with uv inside centre show ?thesis
    by (simp add: fsSource_def)
qed

text \<open>The corner \<open>(0, 1)\<close> of an opaque white image.\<close>

theorem fsSource_barrel_corners_witness:
  "fsSource_uv (Fin (- 1)) (Fin 1) (Fin 0, Fin 1) = (Fin (1/4), Fin (3/4)) \<and>
   fsSource white_image (Fin (- 1)) (Fin 1) (Fin 0, Fin 1) = white"
  using fsSource_barrel_corners [of 0 1 white_image]
  by (simp add: white_image_def)

lemma blend_transparent: "blend (Fin 0, Fin 0, Fin 0, Fin 0) dst = dst"
proof -
  have m: "js_mul d (Fin 1) = d" for d
    by (cases d) (simp_all add: signed_inf_def)
  have a: "js_add (Fin 0) d = d" for d
    by (cases d) simp_all
  show ?thesis
    by (simp add: blend_def js_sub_def m a split: prod.splits)
qed

text \<open>
  Claim C7. Where the source coordinate that the distortion map gives lies outside the
  unit square, the single-image shader writes the transparent colour and the layered
  shader discards the fragment, whatever the texture holds: nothing is sampled. Under the
  editor's blending a discarded fragment leaves the pixel as a transparent one would.
\<close>

theorem outside_contributes_nothing:
  "(uv_outside (fsSource_uv u_strength u_zoom v_texCoord) \<longrightarrow>
      fsSource u_image u_strength u_zoom v_texCoord = (Fin 0, Fin 0, Fin 0, Fin 0)) \<and>
   (uv_outside (FS_SOURCE_uv u_distortion v_texCoord) \<longrightarrow>
      FS_SOURCE u_image u_distortion u_opacity v_texCoord = Discard \<and>
      write_fragment (FS_SOURCE u_image u_distortion u_opacity v_texCoord) dst =
        blend (Fin 0, Fin 0, Fin 0, Fin 0) dst)"
  by (simp add: fsSource_def FS_SOURCE_def blend_transparent)

text \<open>The corner \<open>(0, 0)\<close> at \<open>k = 1.0\<close>, in both modes.\<close>

theorem outside_contributes_nothing_witness:
  "uv_outside (fsSource_uv (Fin 1) (Fin 1) (Fin 0, Fin 0)) \<and>
   fsSource white_image (Fin 1) (Fin 1) (Fin 0, Fin 0) = (Fin 0, Fin 0, Fin 0, Fin 0) \<and>
   uv_outside (FS_SOURCE_uv (Fin 1) (Fin 0, Fin 0)) \<and>
   FS_SOURCE white_image (Fin 1) (Fin 1) (Fin 0, Fin 0) = Discard"
proof -
  have 1: "uv_outside (fsSource_uv (Fin 1) (Fin 1) (Fin 0, Fin 0))"
    by (simp add: fsSource_uv_def dot2_def js_sub_def uv_outside_def)
  have 2: "uv_outside (FS_SOURCE_uv (Fin 1) (Fin 0, Fin 0))"
    by (simp add: FS_SOURCE_uv_def dot2_def js_sub_def uv_outside_def)
  show ?thesis
    using 1 2
      outside_contributes_nothing [of "Fin 1" "Fin 1" "(Fin 0, Fin 0)" white_image "Fin 1" "Fin 1"]
    by simp
qed

section \<open>The projection\<close>

lemma pow2_powr: "pow2 k = 2 powr (real_of_int k)"
  by (simp add: pow2_def powr_real_of_int field_simps)







lemma pow2_mono: "j \<le> k \<Longrightarrow> pow2 j \<le> pow2 k"
  by (simp add: pow2_powr)















section \<open>Adding, editing and deleting layers\<close>

text \<open>
  Claim C2 says that a new layer gets a \<open>zIndex\<close> strictly greater than that of every
  layer there is. The editor gives it the number of layers plus one, which is not so once
  a layer has been deleted: after three uploads and the deletion of the two oldest layers,
  the layer left has \<open>zIndex\<close> 3 and the next upload gets 2, so it is drawn first, below
  the layer that was there.
\<close>

theorem addLayer_below_existing:
  "map layer_id (layers upload_after_deletes) = [''c'', ''d''] \<and>
   map layer_zIndex (layers upload_after_deletes) = [3, 2] \<and>
   map layer_id (sorted_layers (layers upload_after_deletes)) = [''d'', ''c'']"
  by (simp add: upload_after_deletes_def three_uploads_def addLayer_def img_onload_def
      createTexture_def deleteLayer_def initial_editor_def sorted_layers_def)

text \<open>While no layer has been deleted or reordered, the new layer is on top.\<close>

lemma img_onload_zIndex:
  "layer_zIndex (last (layers (img_onload i n w h c s))) = int (length (layers c)) + 1"
  by (simp add: img_onload_def split: prod.splits)

text \<open>
  Claim C3 says that \<open>updateLayer\<close> validates what it merges, clamping a scale to be
  positive and an opacity to \<open>[0, 1]\<close>. It stores the values as they are supplied: an
  opacity of 5 and a scale of -1 are kept.
\<close>

theorem updateLayer_stores_out_of_range:
  "map layer_opacity
     (layers (updateLayer ''a'' (no_updates\<lparr>upd_opacity := Some (Fin 5)\<rparr>) one_upload)) = [Fin 5] \<and>
   map layer_scale
     (layers (updateLayer ''a'' (no_updates\<lparr>upd_scale := Some (Fin (- 1))\<rparr>) one_upload)) = [Fin (- 1)]"
  by (simp add: one_upload_def addLayer_def img_onload_def createTexture_def initial_editor_def
      updateLayer_def merge_updates_def no_updates_def)

lemma merge_no_updates: "merge_updates l no_updates = l"
  by (simp add: merge_updates_def no_updates_def)

lemma updateLayer_no_updates: "updateLayer i no_updates s = s"
proof -
  have "map (\<lambda>l. if layer_id l = i then merge_updates l no_updates else l) (layers s) = layers s"
    by (rule map_idI) (simp add: merge_no_updates)
  then show ?thesis
    by (simp add: updateLayer_def)
qed

text \<open>
  Claim C3, amended. For every layer with the given id, \<open>updateLayer\<close> merges only the
  supplied fields, and stores each supplied value as it is, without validation or
  clamping: every field that is supplied, a scale or an opacity as any other, becomes the
  layer's, every field that is not supplied keeps its value, the layers with another id
  are left as they are, and nothing but the list of layers changes in the editor.
\<close>

theorem updateLayer_merges_supplied:
  assumes "k < length (layers s)" and "layer_id (layers s ! k) = i"
  shows "length (layers (updateLayer i updates s)) = length (layers s) \<and>
         layer_id (layers (updateLayer i updates s) ! k) =
           (case upd_id updates of Some v \<Rightarrow> v | None \<Rightarrow> layer_id (layers s ! k)) \<and>
         layer_name (layers (updateLayer i updates s) ! k) =
           (case upd_name updates of Some v \<Rightarrow> v | None \<Rightarrow> layer_name (layers s ! k)) \<and>
         layer_texture (layers (updateLayer i updates s) ! k) =
           (case upd_texture updates of Some v \<Rightarrow> v | None \<Rightarrow> layer_texture (layers s ! k)) \<and>
         layer_x (layers (updateLayer i updates s) ! k) =
           (case upd_x updates of Some v \<Rightarrow> v | None \<Rightarrow> layer_x (layers s ! k)) \<and>
         layer_y (layers (updateLayer i updates s) ! k) =
           (case upd_y updates of Some v \<Rightarrow> v | None \<Rightarrow> layer_y (layers s ! k)) \<and>
         layer_width (layers (updateLayer i updates s) ! k) =
           (case upd_width updates of Some v \<Rightarrow> v | None \<Rightarrow> layer_width (layers s ! k)) \<and>
         layer_height (layers (updateLayer i updates s) ! k) =
           (case upd_height updates of Some v \<Rightarrow> v | None \<Rightarrow> layer_height (layers s ! k)) \<and>
         layer_scale (layers (updateLayer i updates s) ! k) =
           (case upd_scale updates of Some v \<Rightarrow> v | None \<Rightarrow> layer_scale (layers s ! k)) \<and>
         layer_rotation (layers (updateLayer i updates s) ! k) =
           (case upd_rotation updates of Some v \<Rightarrow> v | None \<Rightarrow> layer_rotation (layers s ! k)) \<and>
         layer_distortion (layers (updateLayer i updates s) ! k) =
           (case upd_distortion updates of Some v \<Rightarrow> v | None \<Rightarrow> layer_distortion (layers s ! k)) \<and>
         layer_opacity (layers (updateLayer i updates s) ! k) =
           (case upd_opacity updates of Some v \<Rightarrow> v | None \<Rightarrow> layer_opacity (layers s ! k)) \<and>
         layer_zIndex (layers (updateLayer i updates s) ! k) =
           (case upd_zIndex updates of Some v \<Rightarrow> v | None \<Rightarrow> layer_zIndex (layers s ! k)) \<and>
         (updates = no_updates \<longrightarrow> updateLayer i updates s = s) \<and>
         (\<forall>j < length (layers s). layer_id (layers s ! j) \<noteq> i \<longrightarrow>
            layers (updateLayer i updates s) ! j = layers s ! j) \<and>
         updateLayer i updates s = s\<lparr>layers := layers (updateLayer i updates s)\<rparr>"
proof -
  have f: "spread old u = (case u of Some v \<Rightarrow> v | None \<Rightarrow> old)" for old :: 'a and u
    by (cases u) simp_all
  have m: "layers (updateLayer i updates s) ! k = merge_updates (layers s ! k) updates"
    using assms by (simp add: updateLayer_def)
  have o: "\<forall>j < length (layers s). layer_id (layers s ! j) \<noteq> i \<longrightarrow>
      layers (updateLayer i updates s) ! j = layers s ! j"
    by (simp add: updateLayer_def)
  have l: "length (layers (updateLayer i updates s)) = length (layers s)"
    by (simp add: updateLayer_def)
  have r: "updateLayer i updates s = s\<lparr>layers := layers (updateLayer i updates s)\<rparr>"
    by (simp add: updateLayer_def)
  have n: "updates = no_updates \<longrightarrow> updateLayer i updates s = s"
    using updateLayer_no_updates by simp
  show ?thesis
    unfolding m using l o r n
    by (simp add: merge_updates_def f)
qed

text \<open>The scale of the uploaded layer is set to 2; its opacity stays at 0.8.\<close>

theorem updateLayer_merges_supplied_witness:
  "map layer_id (layers one_upload) = [''a''] \<and>
   layer_scale (layers (updateLayer ''a'' (no_updates\<lparr>upd_scale := Some (Fin 2)\<rparr>) one_upload) ! 0) = Fin 2 \<and>
   layer_opacity (layers (updateLayer ''a'' (no_updates\<lparr>upd_scale := Some (Fin 2)\<rparr>) one_upload) ! 0) =
     Fin (8/10)"
proof -
  have l: "layers one_upload ! 0 =
      \<lparr>layer_id = ''a'', layer_name = ''a.png'', layer_texture = Some 1,
       layer_x = Fin 400, layer_y = Fin 300, layer_width = Fin 100, layer_height = Fin 100,
       layer_scale = Fin (1/2), layer_rotation = Fin 0, layer_distortion = Fin 0,
       layer_opacity = Fin (8/10), layer_zIndex = 1\<rparr>" "length (layers one_upload) = 1"
    by (simp_all add: one_upload_def addLayer_def img_onload_def createTexture_def initial_editor_def)
  have i: "map layer_id (layers one_upload) = [''a'']"
    by (simp add: one_upload_def addLayer_def img_onload_def createTexture_def initial_editor_def)
  show ?thesis
    using i l updateLayer_merges_supplied [of 0 one_upload "''a''" "no_updates\<lparr>upd_scale := Some (Fin 2)\<rparr>"]
    by (simp add: no_updates_def)
qed

text \<open>
  Claim C9 says that deleting a layer releases its texture. The editor never deletes a
  texture: after the uploaded layer is deleted, the texture made for it is still in the
  WebGL context.
\<close>

theorem deleteLayer_keeps_texture:
  "map layer_texture (layers one_upload) = [Some 1] \<and> gl one_upload = Some [1] \<and>
   layers (deleteLayer ''a'' one_upload) = [] \<and> gl (deleteLayer ''a'' one_upload) = Some [1]"
  by (simp add: one_upload_def addLayer_def img_onload_def
      createTexture_def deleteLayer_def initial_editor_def)

text \<open>
  Claim C9, amended. \<open>deleteLayer\<close> removes every layer with the given id from the list of
  layers and leaves the textures of the WebGL context as they are; if the deleted id
  was the selection, the selection becomes none, and otherwise it is kept; deleting an id
  that no layer has leaves the layers as they are and, when that id is not selected,
  changes nothing.
\<close>

theorem deleteLayer_removes_record:
  "layers (deleteLayer i s) = filter (\<lambda>l. layer_id l \<noteq> i) (layers s) \<and>
   i \<notin> layer_id ` set (layers (deleteLayer i s)) \<and>
   activeLayerId (deleteLayer i s) = (if activeLayerId s = Some i then None else activeLayerId s) \<and>
   gl (deleteLayer i s) = gl s \<and>
   (i \<notin> layer_id ` set (layers s) \<longrightarrow> layers (deleteLayer i s) = layers s) \<and>
   (i \<notin> layer_id ` set (layers s) \<and> activeLayerId s \<noteq> Some i \<longrightarrow> deleteLayer i s = s)"
proof -
  have "filter (\<lambda>l. layer_id l \<noteq> i) (layers s) = layers s" if "i \<notin> layer_id ` set (layers s)"
    using that by (intro filter_True) auto
  then show ?thesis
    by (auto simp add: deleteLayer_def Let_def)
qed

text \<open>The uploaded layer is deleted; then an id that no layer has.\<close>

theorem deleteLayer_removes_record_witness:
  "layers (deleteLayer ''a'' one_upload) = [] \<and>
   activeLayerId one_upload = Some ''a'' \<and>
   activeLayerId (deleteLayer ''a'' one_upload) = None \<and>
   deleteLayer ''b'' (deleteLayer ''a'' one_upload) = deleteLayer ''a'' one_upload"
proof -
  have a: "activeLayerId one_upload = Some ''a''"
    by (simp add: one_upload_def addLayer_def img_onload_def createTexture_def initial_editor_def)
  have l: "filter (\<lambda>l. layer_id l \<noteq> ''a'') (layers one_upload) = []"
    by (simp add: one_upload_def addLayer_def img_onload_def createTexture_def initial_editor_def)
  show ?thesis
    using a l deleteLayer_removes_record [of "''a''" one_upload]
      deleteLayer_removes_record [of "''b''" "deleteLayer ''a'' one_upload"]
    by simp
qed

section \<open>The view\<close>

lemma isFinite_Fin: "isFinite m \<Longrightarrow> \<exists>z. m = Fin z"
  by (cases m) simp_all

lemma fit_view_scale: "\<exists>z. view_scale (fit_view ls canvas) = Fin z \<and> z \<noteq> 0"
  by (auto simp add: fit_view_def Let_def js_eq_def split: prod.splits dest: isFinite_Fin)

lemma clamp_range:
  assumes "m \<noteq> NaN"
  shows "\<exists>z. Math_max (Fin (1/10)) (Math_min m (Fin 10)) = Fin z \<and> 1/10 \<le> z \<and> z \<le> 10"
proof -
  define c :: real where
    "c = (case m of Fin x \<Rightarrow> max (1/10) (min x 10) | PInf \<Rightarrow> 10 | NInf \<Rightarrow> 1/10 | NaN \<Rightarrow> 1)"
  have "Math_max (Fin (1/10)) (Math_min m (Fin 10)) = Fin c"
    using assms by (cases m) (auto simp add: c_def Math_max_def Math_min_def)
  moreover have "1/10 \<le> c \<and> c \<le> 10"
    by (cases m) (auto simp add: c_def)
  ultimately show ?thesis by blast
qed

text \<open>The scale that the pinch gives the example view: it is cut down to the maximum.\<close>

lemma pinch_scale: "view_scale (handleWheel (Fin 0, Fin 0) pinch zoomed_view) = Fin 10"
proof -
  have "1 + 10 \<le> exp (10::real)"
    by (rule exp_ge_add_one_self)
  then have "10 < 2 * exp (10::real)"
    by simp
  then show ?thesis
    by (simp add: handleWheel_def pinch_def zoomed_view_def Math_max_def Math_min_def Let_def)
qed

text \<open>
  Every operation on the view leaves its scale finite and not zero, so that the world
  point under a point of the canvas is defined.
\<close>

lemma view_scale_not_zero:
  assumes "view_scale v = Fin z" and "z \<noteq> 0" and "deltaY e = Fin d"
  shows "\<exists>z'. view_scale (handleWheel rect e v) = Fin z' \<and> z' \<noteq> 0"
    and "\<exists>z'. view_scale (zoom_in v) = Fin z' \<and> z' \<noteq> 0"
    and "\<exists>z'. view_scale (zoom_out v) = Fin z' \<and> z' \<noteq> 0"
    and "\<exists>z'. view_scale (reset_view v) = Fin z' \<and> z' \<noteq> 0"
    and "\<exists>z'. view_scale (view (fitToScreen s)) = Fin z' \<and> z' \<noteq> 0"
proof -
  have "js_mul (view_scale v) (Math_exp (js_mul (js_neg (deltaY e)) (Fin (1/100)))) \<noteq> NaN"
    using assms by simp
  from clamp_range [OF this] obtain n
    where "Math_max (Fin (1/10))
             (Math_min (js_mul (view_scale v) (Math_exp (js_mul (js_neg (deltaY e)) (Fin (1/100)))))
                (Fin 10)) = Fin n"
      and "1/10 \<le> n"
    by blast
  then show "\<exists>z'. view_scale (handleWheel rect e v) = Fin z' \<and> z' \<noteq> 0"
    using assms by (cases "ctrlKey e") (auto simp add: handleWheel_def Let_def)
  show "\<exists>z'. view_scale (zoom_in v) = Fin z' \<and> z' \<noteq> 0"
    using assms by (intro exI [of _ "z * (11/10)"]) (simp add: zoom_in_def)
  show "\<exists>z'. view_scale (zoom_out v) = Fin z' \<and> z' \<noteq> 0"
    using assms by (intro exI [of _ "z / (11/10)"]) (simp add: zoom_out_def)
  show "\<exists>z'. view_scale (reset_view v) = Fin z' \<and> z' \<noteq> 0"
    by (simp add: reset_view_def)
  show "\<exists>z'. view_scale (view (fitToScreen s)) = Fin z' \<and> z' \<noteq> 0"
    using fit_view_scale [of "layers s" "canvasSize s"] by (simp add: fitToScreen_def)
qed

text \<open>
  Claim C4 says that every operation that changes the zoom keeps \<open>zoomScale\<close> within
  \<open>[0.1, 10]\<close>. Only the wheel does: from the initial scale 1, \<open>fitToScreen\<close> on a canvas of
  800 by 600 pixels with one image of 64 by 64 pixels gives the scale 15.625, and from the
  scale 10 the button \<open>+\<close> gives 11.
\<close>

theorem view_scale_leaves_range:
  "view_scale (view small_upload) = Fin 1 \<and>
   view_scale (view (fitToScreen small_upload)) = Fin (125 / 8) \<and>
   view_scale (zoom_in \<lparr>view_x = Fin 0, view_y = Fin 0, view_scale = Fin 10\<rparr>) = Fin 11"
  by (simp add: small_upload_def addLayer_def img_onload_def createTexture_def initial_editor_def
      initial_view_def fitToScreen_def fit_view_def layer_bounds_def corners_def add_corner_def
      js_sub_def js_gt_def js_eq_def Math_min_def zoom_in_def Let_def)

text \<open>
  Claim C4, amended. Starting from any view with \<open>zoomScale\<close> in \<open>[0.1, 10]\<close>, a wheel event,
  be it a pinch that zooms or a scroll that pans, leaves \<open>zoomScale\<close> within \<open>[0.1, 10]\<close>;
  \<open>fitToScreen\<close> is guarded only against a scale that is zero or not finite, so that its
  \<open>zoomScale\<close> is finite and not zero, within that range or not.
\<close>

theorem wheel_keeps_scale_in_range:
  assumes "view_scale v = Fin z" and "1/10 \<le> z" and "z \<le> 10" and "deltaY e = Fin d"
  shows "(\<exists>z'. view_scale (handleWheel rect e v) = Fin z' \<and> 1/10 \<le> z' \<and> z' \<le> 10) \<and>
         (\<exists>z'. view_scale (view (fitToScreen s)) = Fin z' \<and> z' \<noteq> 0)"
proof -
  have "js_mul (view_scale v) (Math_exp (js_mul (js_neg (deltaY e)) (Fin (1/100)))) \<noteq> NaN"
    using assms by simp
  from clamp_range [OF this]
  have "\<exists>z'. view_scale (handleWheel rect e v) = Fin z' \<and> 1/10 \<le> z' \<and> z' \<le> 10"
    using assms by (auto simp add: handleWheel_def Let_def)
  moreover have "\<exists>z'. view_scale (view (fitToScreen s)) = Fin z' \<and> z' \<noteq> 0"
    using fit_view_scale [of "layers s" "canvasSize s"] by (simp add: fitToScreen_def)
  ultimately show ?thesis by blast
qed

text \<open>The pinch on the example view, and \<open>fitToScreen\<close> after the upload of a small image.\<close>

theorem wheel_keeps_scale_in_range_witness:
  "view_scale zoomed_view = Fin 2 \<and>
   view_scale (handleWheel (Fin 0, Fin 0) pinch zoomed_view) = Fin 10 \<and>
   view_scale (view (fitToScreen small_upload)) \<noteq> Fin 0"
proof -
  have h: "view_scale zoomed_view = Fin 2" "deltaY pinch = Fin (- 1000)"
    by (simp_all add: zoomed_view_def pinch_def)
  show ?thesis
    using h pinch_scale
      wheel_keeps_scale_in_range [of zoomed_view 2 pinch "- 1000" "(Fin 0, Fin 0)" small_upload]
    by auto
qed

text \<open>
  Claim C5. For every view with a finite, non-zero scale, every point of the canvas and
  every wheel delta, the zoom of the wheel leaves the world point under the pointer where
  it was: \<open>(mouse - pan) / zoomScale\<close> is the same before and after.
\<close>

theorem handleWheel_keeps_world_point:
  assumes "ctrlKey e" and "deltaY e = Fin d"
    and "clientX e = Fin cx" and "clientY e = Fin cy" and "rect = (Fin rl, Fin rt)"
    and "view_x v = Fin a" and "view_y v = Fin b" and "view_scale v = Fin z" and "z \<noteq> 0"
  shows "world_point (handleWheel rect e v)
           (js_sub (clientX e) (fst rect), js_sub (clientY e) (snd rect)) =
         world_point v (js_sub (clientX e) (fst rect), js_sub (clientY e) (snd rect))"
proof -
  let ?m = "js_mul (view_scale v) (Math_exp (js_mul (js_neg (deltaY e)) (Fin (1/100))))"
  have "?m \<noteq> NaN"
    using assms by simp
  from clamp_range [OF this] obtain n
    where n: "Math_max (Fin (1/10)) (Math_min ?m (Fin 10)) = Fin n" and "1/10 \<le> n"
    by blast
  then have "n \<noteq> 0"
    by auto
  have v': "handleWheel rect e v =
      \<lparr>view_x = Fin (cx - rl - (cx - rl - a) / z * n),
       view_y = Fin (cy - rt - (cy - rt - b) / z * n),
       view_scale = Fin n\<rparr>"
    using assms n by (simp add: handleWheel_def Let_def js_sub_def)
  show ?thesis
    unfolding v' using assms \<open>n \<noteq> 0\<close>
    by (simp add: world_point_def js_sub_def)
qed

text \<open>
  The pinch at the canvas point \<open>(120, 80)\<close> of the example view, which shows the world
  point \<open>(55, 30)\<close> there before and after, at scale 2 and at scale 10.
\<close>

theorem handleWheel_keeps_world_point_witness:
  "world_point zoomed_view (Fin 120, Fin 80) = (Fin 55, Fin 30) \<and>
   view_scale (handleWheel (Fin 0, Fin 0) pinch zoomed_view) = Fin 10 \<and>
   world_point (handleWheel (Fin 0, Fin 0) pinch zoomed_view) (Fin 120, Fin 80) = (Fin 55, Fin 30)"
proof -
  have w: "world_point zoomed_view (Fin 120, Fin 80) = (Fin 55, Fin 30)"
    by (simp add: world_point_def zoomed_view_def js_sub_def)
  have h: "ctrlKey pinch" "deltaY pinch = Fin (- 1000)" "clientX pinch = Fin 120"
    "clientY pinch = Fin 80" "view_x zoomed_view = Fin 10" "view_y zoomed_view = Fin 20"
    "view_scale zoomed_view = Fin 2"
    by (simp_all add: pinch_def zoomed_view_def)
  show ?thesis
    using w pinch_scale
      handleWheel_keeps_world_point [OF h(1-4) refl h(5-7), of 0 0]
    by (simp add: h js_sub_def)
qed

section \<open>Placing a layer and hitting it\<close>

lemmas m3_defs = m3_multiply_def m3_translation_def m3_rotation_def m3_scale_def row_col_def

lemma view_matrix_Fin:
  assumes "view_x v = Fin a" and "view_y v = Fin b" and "view_scale v = Fin z"
  shows "view_matrix v = [Fin z, Fin 0, Fin 0, Fin 0, Fin z, Fin 0, Fin a, Fin b, Fin 1]"
  using assms by (simp add: view_matrix_def m3_defs Let_def)

lemma model_matrix_Fin:
  assumes "layer_x layer = Fin lx" and "layer_y layer = Fin ly" and "layer_rotation layer = Fin r"
    and "js_mul (layer_width layer) (layer_scale layer) = Fin ew"
    and "js_mul (layer_height layer) (layer_scale layer) = Fin eh"
  shows "model_matrix layer =
           [Fin (ew * cos r), Fin (- (ew * sin r)), Fin 0,
            Fin (eh * sin r), Fin (eh * cos r), Fin 0,
            Fin lx, Fin ly, Fin 1]"
  using assms by (simp add: model_matrix_def m3_defs Let_def)

text \<open>Where \<open>render\<close> draws the point \<open>(px, py)\<close> of the unit quad of a layer.\<close>

lemma place_Fin:
  assumes "layer_x layer = Fin lx" and "layer_y layer = Fin ly" and "layer_rotation layer = Fin r"
    and "js_mul (layer_width layer) (layer_scale layer) = Fin ew"
    and "js_mul (layer_height layer) (layer_scale layer) = Fin eh"
    and "view_x v = Fin a" and "view_y v = Fin b" and "view_scale v = Fin z"
  shows "place v layer (Fin px, Fin py) =
           (Fin (a + z * (lx + (ew * cos r * px + eh * sin r * py))),
            Fin (b + z * (ly + (eh * cos r * py - ew * sin r * px))))"
  unfolding place_def view_matrix_Fin [OF assms(6-8)] model_matrix_Fin [OF assms(1-5)]
  by (simp add: m3_multiply_def row_col_def VS_SOURCE_def Let_def algebra_simps)

text \<open>
  The matrix that \<open>render\<close> hands to the shader sends the point to the clip-space
  coordinates of that pixel.
\<close>

lemma finalMatrix_place:
  assumes "layer_x layer = Fin lx" and "layer_y layer = Fin ly" and "layer_rotation layer = Fin r"
    and "js_mul (layer_width layer) (layer_scale layer) = Fin ew"
    and "js_mul (layer_height layer) (layer_scale layer) = Fin eh"
    and "view_x v = Fin a" and "view_y v = Fin b" and "view_scale v = Fin z"
    and "0 < w" and "0 < h"
  shows "VS_SOURCE (finalMatrix (Fin w) (Fin h) v layer) (Fin px, Fin py) =
           VS_SOURCE (m3_projection (Fin w) (Fin h)) (place v layer (Fin px, Fin py))"
  unfolding place_def finalMatrix_def view_matrix_Fin [OF assms(6-8)]
    model_matrix_Fin [OF assms(1-5)]
  using assms(9,10)
  by (simp add: m3_multiply_def m3_projection_def row_col_def VS_SOURCE_def Let_def algebra_simps)

lemma local_point_Fin:
  assumes "layer_x layer = Fin lx" and "layer_y layer = Fin ly" and "layer_rotation layer = Fin r"
    and "js_mul (layer_width layer) (layer_scale layer) = Fin ew" and "ew \<noteq> 0"
    and "js_mul (layer_height layer) (layer_scale layer) = Fin eh" and "eh \<noteq> 0"
  shows "local_point (Fin wx) (Fin wy) layer =
           (Fin (((wx - lx) * cos r + (wy - ly) * sin r) / ew),
            Fin (((wx - lx) * - sin r + (wy - ly) * cos r) / eh))"
  using assms by (simp add: local_point_def js_sub_def Let_def)

lemma hits_Fin:
  assumes "view_x v = Fin a" and "view_y v = Fin b" and "view_scale v = Fin z" and "z \<noteq> 0"
  shows "hits v layer (Fin mx, Fin my) =
           in_bounds (local_point (Fin ((mx - a) / z)) (Fin ((my - b) / z)) layer)"
  using assms by (simp add: hits_def js_sub_def Let_def)

lemma in_bounds_Fin: "in_bounds (Fin x, Fin y) \<longleftrightarrow> \<bar>x\<bar> \<le> 1/2 \<and> \<bar>y\<bar> \<le> 1/2"
  by (auto simp add: in_bounds_def js_le_def js_eq_def)

lemma rotate_twice:
  fixes r :: real
  shows "(u * cos r + w * sin r) * cos r + (w * cos r - u * sin r) * sin r =
           u * cos (2 * r) + w * sin (2 * r)"
    and "(u * cos r + w * sin r) * - sin r + (w * cos r - u * sin r) * cos r =
           w * cos (2 * r) - u * sin (2 * r)"
proof -
  have c2: "cos (2 * r) = cos r * cos r - sin r * sin r"
    by (simp add: cos_double power2_eq_square)
  have s2: "sin (2 * r) = 2 * sin r * cos r"
    by (simp add: sin_double)
  show "(u * cos r + w * sin r) * cos r + (w * cos r - u * sin r) * sin r =
          u * cos (2 * r) + w * sin (2 * r)"
    unfolding c2 s2 by (simp add: algebra_simps)
  show "(u * cos r + w * sin r) * - sin r + (w * cos r - u * sin r) * cos r =
          w * cos (2 * r) - u * sin (2 * r)"
    unfolding c2 s2 by (simp add: algebra_simps)
qed

text \<open>
  The hit test turns the pointer the way \<open>m3_rotation\<close> turns the quad, not back: for the
  pixel at which a point \<open>p\<close> of the quad is drawn, it tests \<open>p\<close> turned by twice the
  rotation of the layer.
\<close>

lemma hit_of_place:
  assumes "layer_x layer = Fin lx" and "layer_y layer = Fin ly" and "layer_rotation layer = Fin r"
    and "js_mul (layer_width layer) (layer_scale layer) = Fin ew" and "ew \<noteq> 0"
    and "js_mul (layer_height layer) (layer_scale layer) = Fin eh" and "eh \<noteq> 0"
    and "view_x v = Fin a" and "view_y v = Fin b" and "view_scale v = Fin z" and "z \<noteq> 0"
  shows "hits v layer (place v layer (Fin px, Fin py)) \<longleftrightarrow>
           \<bar>(ew * px * cos (2 * r) + eh * py * sin (2 * r)) / ew\<bar> \<le> 1/2 \<and>
           \<bar>(eh * py * cos (2 * r) - ew * px * sin (2 * r)) / eh\<bar> \<le> 1/2"
proof -
  let ?u = "ew * px" and ?w = "eh * py"
  let ?wx = "lx + (?u * cos r + ?w * sin r)" and ?wy = "ly + (?w * cos r - ?u * sin r)"
  have p: "place v layer (Fin px, Fin py) = (Fin (a + z * ?wx), Fin (b + z * ?wy))"
    using place_Fin [OF assms(1-4) assms(6) assms(8-10), of px py]
    by (simp add: mult.commute mult.left_commute)
  have w: "(a + z * ?wx - a) / z = ?wx" "(b + z * ?wy - b) / z = ?wy"
    using \<open>z \<noteq> 0\<close> by simp_all
  have "hits v layer (place v layer (Fin px, Fin py)) =
      in_bounds (local_point (Fin ?wx) (Fin ?wy) layer)"
    unfolding p hits_Fin [OF assms(8-11)] w ..
  also have "local_point (Fin ?wx) (Fin ?wy) layer =
      (Fin (((?u * cos r + ?w * sin r) * cos r + (?w * cos r - ?u * sin r) * sin r) / ew),
       Fin (((?u * cos r + ?w * sin r) * - sin r + (?w * cos r - ?u * sin r) * cos r) / eh))"
    unfolding local_point_Fin [OF assms(1-7)] by simp
  finally show ?thesis
    unfolding rotate_twice in_bounds_Fin .
qed

text \<open>A layer that is not turned is hit wherever it is drawn.\<close>

lemma unrotated_hit:
  assumes "layer_rotation layer = Fin 0"
    and "layer_x layer = Fin lx" and "layer_y layer = Fin ly"
    and "js_mul (layer_width layer) (layer_scale layer) = Fin ew" and "ew \<noteq> 0"
    and "js_mul (layer_height layer) (layer_scale layer) = Fin eh" and "eh \<noteq> 0"
    and "view_x v = Fin a" and "view_y v = Fin b" and "view_scale v = Fin z" and "z \<noteq> 0"
    and "\<bar>px\<bar> \<le> 1/2" and "\<bar>py\<bar> \<le> 1/2"
  shows "hits v layer (place v layer (Fin px, Fin py))"
  using hit_of_place [OF assms(2,3,1) assms(4-11), of px py] assms(5,7,12,13)
  by simp

lemma hitLayerId_single:
  "hitLayerId v [layer] mx my = (if hits v layer (mx, my) then Some (layer_id layer) else None)"
  by (simp add: hitLayerId_def hits_def sortedReverse_def Let_def)

lemma place_rotated:
  "place initial_view rotated_layer (Fin (1/2), Fin 0) =
     (Fin (400 + 50 * sqrt 2), Fin (300 - 50 * sqrt 2))"
  using place_Fin [of rotated_layer 400 300 "pi / 4" 200 100 initial_view 0 0 1 "1/2" 0]
  by (simp add: rotated_layer_def initial_view_def cos_45 sin_45)

text \<open>
  Claim C6 says that the hit test inverts the placement: the pixel at which a point of the
  unit quad of a layer is drawn hits that layer. For a layer that is turned it does not
  hold. Take the image of 200 by 100 pixels turned by 45 degrees, under the initial view:
  the middle \<open>(0.5, 0)\<close> of its right edge is drawn at a pixel for which the hit test
  computes the local point \<open>(0, -1)\<close>, outside the quad, so the layer is not hit, the hit
  test finds no layer, and a pointer-down there deselects the layer and pans the view.
  The same image, not turned, is hit at the pixel where that point is drawn.
\<close>

theorem rotated_layer_point_not_hit:
  "place initial_view rotated_layer (Fin (1/2), Fin 0) = (clientX edge_click, clientY edge_click) \<and>
   \<not> hits initial_view rotated_layer (clientX edge_click, clientY edge_click) \<and>
   hitLayerId initial_view [rotated_layer] (clientX edge_click) (clientY edge_click) = None \<and>
   handleMouseDown (Some (Fin 0, Fin 0)) edge_click rotated_editor =
     start_panning edge_click (rotated_editor\<lparr>activeLayerId := None\<rparr>) \<and>
   hits initial_view upright_layer (place initial_view upright_layer (Fin (1/2), Fin 0))"
proof -
  have p: "place initial_view rotated_layer (Fin (1/2), Fin 0) =
      (clientX edge_click, clientY edge_click)"
    by (simp add: place_rotated edge_click_def)
  have "\<not> hits initial_view rotated_layer (place initial_view rotated_layer (Fin (1/2), Fin 0))"
    using hit_of_place [of rotated_layer 400 300 "pi / 4" 200 100 initial_view 0 0 1 "1/2" 0]
    by (simp add: rotated_layer_def initial_view_def)
  then have n: "\<not> hits initial_view rotated_layer (clientX edge_click, clientY edge_click)"
    unfolding p .
  then have h: "hitLayerId initial_view [rotated_layer] (clientX edge_click) (clientY edge_click) = None"
    by (simp add: hitLayerId_single)
  have "view rotated_editor = initial_view" "layers rotated_editor = [rotated_layer]"
    "\<not> isSpacePressed rotated_editor" "button edge_click \<noteq> 1"
    by (simp_all add: rotated_editor_def initial_editor_def edge_click_def)
  with h have d: "handleMouseDown (Some (Fin 0, Fin 0)) edge_click rotated_editor =
      start_panning edge_click (rotated_editor\<lparr>activeLayerId := None\<rparr>)"
    by (simp add: handleMouseDown_def edge_click_def js_sub_def)
  have u: "hits initial_view upright_layer (place initial_view upright_layer (Fin (1/2), Fin 0))"
    using unrotated_hit [of upright_layer 400 300 200 100 initial_view 0 0 1 "1/2" 0]
    by (simp add: upright_layer_def rotated_layer_def initial_view_def)
  from p n h d u show ?thesis
    by blast
qed

lemma div_zero_cases: "js_div a (Fin 0) = PInf \<or> js_div a (Fin 0) = NInf \<or> js_div a (Fin 0) = NaN"
  by (cases a) (simp_all add: signed_inf_def)

lemma div_zero_not_finite: "\<not> isFinite (js_div a (Fin 0))"
  using div_zero_cases [of a] by auto

lemma abs_div_zero_not_le: "\<not> js_le (Math_abs (js_div a (Fin 0))) (Fin b)"
  using div_zero_cases [of a] by (auto simp add: js_le_def js_eq_def)

lemma zero_extent_out: "zero_extent layer \<Longrightarrow> \<not> in_bounds (local_point wx wy layer)"
  by (auto simp add: zero_extent_def in_bounds_def local_point_def Let_def abs_div_zero_not_le)

lemma hit_loop_Some:
  "hit_loop wx wy ls = Some i \<Longrightarrow> \<exists>l \<in> set ls. layer_id l = i \<and> in_bounds (local_point wx wy l)"
  by (induction ls) (auto split: if_splits)

lemma hitLayerId_Some:
  assumes "hitLayerId v ls mx my = Some i"
  shows "\<exists>l \<in> set ls. layer_id l = i \<and> \<not> zero_extent l"
proof -
  from assms obtain wx wy where "hit_loop wx wy (sortedReverse ls) = Some i"
    by (auto simp add: hitLayerId_def Let_def)
  from hit_loop_Some [OF this] show ?thesis
    using zero_extent_out by (auto simp add: sortedReverse_def)
qed

lemma hitLayerId_all_zero:
  assumes "\<And>l. l \<in> set ls \<Longrightarrow> zero_extent l"
  shows "hitLayerId v ls mx my = None"
proof (cases "hitLayerId v ls mx my")
  case None
  then show ?thesis .
next
  case (Some i)
  from hitLayerId_Some [OF this] assms show ?thesis by auto
qed

text \<open>
  Claim C10. For a layer whose \<open>width * scale\<close> or \<open>height * scale\<close> is zero, the division
  by that extent gives a local coordinate that is not finite, the bounds check is false
  and the layer is not hit, wherever the pointer is: the loop goes on to the next layer,
  the hit test never returns the id on account of such a layer, and when every layer is
  such a one the pointer-down deselects and starts panning.
\<close>

theorem zero_extent_never_hit:
  assumes "zero_extent layer"
  shows "(js_mul (layer_width layer) (layer_scale layer) = Fin 0 \<longrightarrow>
            \<not> isFinite (fst (local_point wx wy layer))) \<and>
         (js_mul (layer_height layer) (layer_scale layer) = Fin 0 \<longrightarrow>
            \<not> isFinite (snd (local_point wx wy layer))) \<and>
         \<not> in_bounds (local_point wx wy layer) \<and>
         \<not> hits v layer m \<and>
         hit_loop wx wy (layer # rest) = hit_loop wx wy rest \<and>
         (hitLayerId v ls mx my = Some i \<longrightarrow> (\<exists>l \<in> set ls. layer_id l = i \<and> \<not> zero_extent l)) \<and>
         ((\<forall>l \<in> set (layers s). zero_extent l) \<and> \<not> isSpacePressed s \<and> button e \<noteq> 1 \<longrightarrow>
            handleMouseDown (Some rect) e s = start_panning e (s\<lparr>activeLayerId := None\<rparr>))"
proof -
  have 1: "\<not> in_bounds (local_point wx wy layer)" "\<not> hits v layer m"
    using assms by (simp_all add: hits_def Let_def zero_extent_out)
  have 2: "hit_loop wx wy (layer # rest) = hit_loop wx wy rest"
    using assms by (simp add: zero_extent_out)
  have 3: "js_mul (layer_width layer) (layer_scale layer) = Fin 0 \<longrightarrow>
            \<not> isFinite (fst (local_point wx wy layer))"
    "js_mul (layer_height layer) (layer_scale layer) = Fin 0 \<longrightarrow>
            \<not> isFinite (snd (local_point wx wy layer))"
    by (simp_all add: local_point_def Let_def div_zero_not_finite)
  have 4: "handleMouseDown (Some rect) e s = start_panning e (s\<lparr>activeLayerId := None\<rparr>)"
    if "\<forall>l \<in> set (layers s). zero_extent l" "\<not> isSpacePressed s" "button e \<noteq> 1"
    using that hitLayerId_all_zero [of "layers s" "view s"]
    by (simp add: handleMouseDown_def Let_def split: prod.splits)
  from 1 2 3 4 hitLayerId_Some show ?thesis by blast
qed

text \<open>A layer of width zero, and a pointer-down on its centre.\<close>

theorem zero_extent_never_hit_witness:
  "zero_extent flat_layer \<and>
   \<not> hits initial_view flat_layer (Fin 400, Fin 300) \<and>
   handleMouseDown (Some (Fin 0, Fin 0)) click (initial_editor\<lparr>layers := [flat_layer]\<rparr>) =
     start_panning click (initial_editor\<lparr>layers := [flat_layer], activeLayerId := None\<rparr>)"
proof -
  have z: "zero_extent flat_layer"
    by (simp add: zero_extent_def flat_layer_def)
  have i: "\<not> isSpacePressed (initial_editor\<lparr>layers := [flat_layer]\<rparr>)" "button click \<noteq> 1"
    by (simp_all add: initial_editor_def click_def)
  show ?thesis
    using z i zero_extent_never_hit [OF z, of _ _ initial_view "(Fin 400, Fin 300)" _ _ _ _ _
        "initial_editor\<lparr>layers := [flat_layer]\<rparr>" click "(Fin 0, Fin 0)"]
    by simp
qed

end
